theory Spec2Isabelle
  imports Main "HOL-Library.Sublist"
begin

section \<open>Data model\<close>

text \<open>
  The two closed enumerations of the application component:
  \<^verbatim>\<open>type AppState = 'idle' | 'loading' | 'success' | 'error'\<close> and
  \<^verbatim>\<open>type ArtisticEffect = 'none' | 'vintage' | 'bw' | 'sepia' | 'sketch' | 'oil-painting' | 'cartoon'\<close>.
\<close>

datatype AppState = Idle | Loading | Success | Error

datatype ArtisticEffect = EffNone | Vintage | Bw | Sepia | Sketch | OilPainting | Cartoon

subsection \<open>Numbers inside template literals\<close>

text \<open>
  The sliders are range inputs with the default step 1, and the state starts at 100, 100
  and 0, so brightness, contrast and noise reduction are integers; \<open>Date.now()\<close> is an
  integer too. A template literal renders an integer in decimal, with a leading minus
  sign when it is negative (below \<open>10\<^sup>2\<^sup>1\<close> in absolute value, which covers the sliders
  and every timestamp).
\<close>

fun digits_of_nat :: "nat \<Rightarrow> string" where
  "digits_of_nat n =
     (if n < 10 then [''0123456789'' ! n]
      else digits_of_nat (n div 10) @ [''0123456789'' ! (n mod 10)])"

declare digits_of_nat.simps [simp del]

definition number_toString :: "int \<Rightarrow> string" where
  "number_toString i =
     (if i < 0 then ''-'' @ digits_of_nat (nat (- i)) else digits_of_nat (nat i))"

text \<open>\<open>String.prototype.includes\<close>: the argument occurs as a contiguous substring.\<close>

definition str_includes :: "string \<Rightarrow> string \<Rightarrow> bool" where
  "str_includes s t = sublist t s"

section \<open>Prompt compiler (the prompt built in \<open>handleEnhanceClick\<close>)\<close>

text \<open>
  The source starts from a literal and appends to the variable \<open>prompt\<close> in four steps;
  each step is one \<open>let\<close> below. The \<open>switch\<close> has no case for \<open>'none'\<close>, so that
  effect leaves the prompt as it is.
\<close>

definition build_prompt :: "int \<Rightarrow> int \<Rightarrow> int \<Rightarrow> ArtisticEffect \<Rightarrow> string" where
  "build_prompt brightness contrast noiseReduction artisticEffect =
     (let prompt = ''Fix this old and damaged photo. Improve its overall quality, and adjust the lighting and contrast to make it look more vibrant and clear.'';
          prompt = (if brightness \<noteq> 100
                    then prompt @ '' Adjust the brightness to be around '' @ number_toString brightness @ ''%.''
                    else prompt);
          prompt = (if contrast \<noteq> 100
                    then prompt @ '' Adjust the contrast to be around '' @ number_toString contrast @ ''%.''
                    else prompt);
          prompt = (if noiseReduction > 0
                    then prompt @ '' Apply noise reduction at an intensity of about '' @ number_toString noiseReduction @ ''%.''
                    else prompt)
      in case artisticEffect of
           Vintage \<Rightarrow> prompt @ '' Apply a vintage effect to the image.''
         | Bw \<Rightarrow> prompt @ '' Convert the image to artistic black and white, preserving details.''
         | Sepia \<Rightarrow> prompt @ '' Apply a warm sepia tone to the image.''
         | Sketch \<Rightarrow> prompt @ '' Turn the image into a pencil sketch, emphasizing lines and shading.''
         | OilPainting \<Rightarrow> prompt @ '' Make the image look like an oil painting with visible brush strokes and rich colors.''
         | Cartoon \<Rightarrow> prompt @ '' Apply a cartoon effect to the image with vibrant colors and bold outlines.''
         | EffNone \<Rightarrow> prompt)"

text \<open>The parts of the prompt the specification names, for stating the closed form.\<close>

definition base_sentence :: string where
  "base_sentence = ''Fix this old and damaged photo. Improve its overall quality, and adjust the lighting and contrast to make it look more vibrant and clear.''"

definition effect_clause :: "ArtisticEffect \<Rightarrow> string" where
  "effect_clause e =
     (case e of
        EffNone \<Rightarrow> []
      | Vintage \<Rightarrow> '' Apply a vintage effect to the image.''
      | Bw \<Rightarrow> '' Convert the image to artistic black and white, preserving details.''
      | Sepia \<Rightarrow> '' Apply a warm sepia tone to the image.''
      | Sketch \<Rightarrow> '' Turn the image into a pencil sketch, emphasizing lines and shading.''
      | OilPainting \<Rightarrow> '' Make the image look like an oil painting with visible brush strokes and rich colors.''
      | Cartoon \<Rightarrow> '' Apply a cartoon effect to the image with vibrant colors and bold outlines.'')"

section \<open>Preview filter compiler (\<open>computedFilter\<close> of the image comparator)\<close>

definition computedFilter :: "int \<Rightarrow> int \<Rightarrow> ArtisticEffect \<Rightarrow> string" where
  "computedFilter brightness contrast artisticEffect =
     (let filter = ''brightness('' @ number_toString brightness @ ''%) contrast(''
                     @ number_toString contrast @ ''%)''
      in case artisticEffect of
           Vintage \<Rightarrow> filter @ '' sepia(60%)''
         | Bw \<Rightarrow> filter @ '' grayscale(100%)''
         | Sepia \<Rightarrow> filter @ '' sepia(100%)''
         | Sketch \<Rightarrow> filter @ '' grayscale(100%) contrast(150%) brightness(110%)''
         | OilPainting \<Rightarrow> filter @ '' saturate(180%) contrast(130%)''
         | Cartoon \<Rightarrow> filter @ '' saturate(200%) contrast(150%)''
         | EffNone \<Rightarrow> filter)"

text \<open>
  The specification's view of a filter: an ordered sequence of named operations with a
  percentage each, written one after the other with a blank in between. The table is
  the one of the specification's section on the preview filter.
\<close>

type_synonym filter_op = "string \<times> int"

definition spec_effect_ops :: "ArtisticEffect \<Rightarrow> filter_op list" where
  "spec_effect_ops e =
     (case e of
        Vintage \<Rightarrow> [(''sepia'', 60)]
      | Bw \<Rightarrow> [(''grayscale'', 100)]
      | Sepia \<Rightarrow> [(''sepia'', 100)]
      | Sketch \<Rightarrow> [(''grayscale'', 100), (''contrast'', 150), (''brightness'', 110)]
      | OilPainting \<Rightarrow> [(''saturate'', 180), (''contrast'', 130)]
      | Cartoon \<Rightarrow> [(''saturate'', 200), (''contrast'', 150)]
      | EffNone \<Rightarrow> [])"

definition spec_filter_ops :: "int \<Rightarrow> int \<Rightarrow> ArtisticEffect \<Rightarrow> filter_op list" where
  "spec_filter_ops b c e = [(''brightness'', b), (''contrast'', c)] @ spec_effect_ops e"

definition render_op :: "filter_op \<Rightarrow> string" where
  "render_op p = fst p @ ''('' @ number_toString (snd p) @ ''%)''"

fun render_ops :: "filter_op list \<Rightarrow> string" where
  "render_ops [] = []"
| "render_ops [p] = render_op p"
| "render_ops (p # q # ps) = render_op p @ '' '' @ render_ops (q # ps)"

section \<open>Enhancement client (\<open>enhanceImageWithGemini\<close>)\<close>

text \<open>
  The shapes of the remote interface the client reads and writes. Every property of a
  response is optional (the client reads it with \<open>?.\<close>), so each is an \<open>option\<close>.
\<close>

record Blob =
  data :: "string option"
  mimeType :: "string option"

record Part =
  part_text :: "string option"
  inlineData :: "Blob option"

record Content =
  parts :: "Part list option"

record Candidate =
  content :: "Content option"

record GenerateContentResponse =
  candidates :: "Candidate list option"

datatype Modality = IMAGE

record GenerateContentParameters =
  model :: string
  contents :: Content
  responseModalities :: "Modality list"

text \<open>
  A thrown value: an instance of \<open>Error\<close> with its message, or any other value (for which
  \<open>error instanceof Error\<close> is false).
\<close>

datatype thrown = JsError string | NonError

text \<open>A template literal renders \<open>undefined\<close> as the word itself.\<close>

definition template_str :: "string option \<Rightarrow> string" where
  "template_str v = (case v of None \<Rightarrow> ''undefined'' | Some s \<Rightarrow> s)"

text \<open>The request the client builds from its three arguments.\<close>

definition client_request :: "string option \<Rightarrow> string \<Rightarrow> string \<Rightarrow> GenerateContentParameters" where
  "client_request base64ImageData mimeType' prompt =
     (let imagePart = \<lparr>part_text = None,
                        inlineData = Some \<lparr>data = base64ImageData, mimeType = Some mimeType'\<rparr>\<rparr>;
          textPart = \<lparr>part_text = Some prompt, inlineData = None\<rparr>
      in \<lparr>model = ''gemini-2.5-flash-image'',
          contents = \<lparr>parts = Some [imagePart, textPart]\<rparr>,
          responseModalities = [IMAGE]\<rparr>)"

text \<open>
  \<^verbatim>\<open>response.candidates?.[0]?.content?.parts?.find(part => part.inlineData)\<close>:
  only the first candidate is read, and of its parts the first with inline data.
\<close>

definition imageResponsePart :: "GenerateContentResponse \<Rightarrow> Part option" where
  "imageResponsePart response =
     (case candidates response of
        None \<Rightarrow> None
      | Some cs \<Rightarrow>
          (case cs of
             [] \<Rightarrow> None
           | c # _ \<Rightarrow>
               (case content c of
                  None \<Rightarrow> None
                | Some ct \<Rightarrow>
                    (case parts ct of
                       None \<Rightarrow> None
                     | Some ps \<Rightarrow> find (\<lambda>part. inlineData part \<noteq> None) ps))))"

text \<open>Every part of every candidate of a response, for statements about all of them.\<close>

definition candidate_parts :: "Candidate \<Rightarrow> Part list" where
  "candidate_parts c =
     (case content c of
        None \<Rightarrow> []
      | Some ct \<Rightarrow> (case parts ct of None \<Rightarrow> [] | Some ps \<Rightarrow> ps))"

definition all_parts :: "GenerateContentResponse \<Rightarrow> Part list" where
  "all_parts response =
     concat (map candidate_parts (case candidates response of None \<Rightarrow> [] | Some cs \<Rightarrow> cs))"

text \<open>The body of the \<open>try\<close> after the remote call has answered: the value returned or thrown.\<close>

definition try_block :: "thrown + GenerateContentResponse \<Rightarrow> thrown + string" where
  "try_block answer =
     (case answer of
        Inl err \<Rightarrow> Inl err
      | Inr response \<Rightarrow>
          (case imageResponsePart response of
             None \<Rightarrow> Inl (JsError ''No image found in the API response.'')
           | Some p \<Rightarrow>
               (case inlineData p of
                  None \<Rightarrow> Inl (JsError ''No image found in the API response.'')
                | Some b \<Rightarrow>
                    Inr (''data:'' @ template_str (mimeType b) @ '';base64,'' @ template_str (data b)))))"

text \<open>The \<open>catch\<close> clause: whatever was thrown is replaced by one of two new errors.\<close>

definition catch_block :: "thrown \<Rightarrow> thrown" where
  "catch_block err =
     (if (case err of JsError message \<Rightarrow> str_includes message ''429'' | NonError \<Rightarrow> False)
      then JsError ''Request limit exceeded. Please try again later.''
      else JsError ''Failed to enhance the image. Please check the console for more details.'')"

text \<open>
  The client, with the remote call \<open>ai.models.generateContent\<close> as a parameter. The call
  is made once; the result is \<open>Inr\<close> the data URL the promise resolves to, or \<open>Inl\<close> the
  error it rejects with.
\<close>

definition enhanceImageWithGemini ::
  "(GenerateContentParameters \<Rightarrow> thrown + GenerateContentResponse)
     \<Rightarrow> string option \<Rightarrow> string \<Rightarrow> string \<Rightarrow> thrown + string" where
  "enhanceImageWithGemini generateContent base64ImageData mimeType' prompt =
     (case try_block (generateContent (client_request base64ImageData mimeType' prompt)) of
        Inr url \<Rightarrow> Inr url
      | Inl err \<Rightarrow> Inl (catch_block err))"

section \<open>Application state controller (the \<open>App\<close> component)\<close>

record app_state =
  originalImage :: "string option"
  originalMimeType :: "string option"
  enhancedImage :: "string option"
  appState :: AppState
  error :: "string option"
  brightness :: int
  contrast :: int
  noiseReduction :: int
  artisticEffect :: ArtisticEffect

text \<open>The initial values of the nine \<open>useState\<close> hooks.\<close>

definition initial_state :: app_state where
  "initial_state =
     \<lparr>originalImage = None, originalMimeType = None, enhancedImage = None, appState = Idle,
      error = None, brightness = 100, contrast = 100, noiseReduction = 0,
      artisticEffect = EffNone\<rparr>"

text \<open>A value of type \<open>string | null\<close> is falsy when it is \<open>null\<close> or the empty string.\<close>

definition truthy :: "string option \<Rightarrow> bool" where
  "truthy v = (case v of None \<Rightarrow> False | Some s \<Rightarrow> s \<noteq> [])"

definition handleResetSettings :: "app_state \<Rightarrow> app_state" where
  "handleResetSettings s =
     s\<lparr>brightness := 100, contrast := 100, noiseReduction := 0, artisticEffect := EffNone\<rparr>"

text \<open>
  The two callbacks \<open>handleFileSelect\<close> installs on the file reader. \<open>reader.result\<close> is
  \<open>null\<close> when the read failed, and \<open>file.type\<close> is a string.
\<close>

definition onloadend :: "string option \<Rightarrow> string \<Rightarrow> app_state \<Rightarrow> app_state" where
  "onloadend result file_type s =
     handleResetSettings
       (s\<lparr>originalImage := result, originalMimeType := Some file_type, enhancedImage := None,
          error := None, appState := Idle\<rparr>)"

definition onerror :: "app_state \<Rightarrow> app_state" where
  "onerror s = s\<lparr>error := Some ''Error reading the file.'', appState := Error\<rparr>"

definition handleReset :: "app_state \<Rightarrow> app_state" where
  "handleReset s =
     handleResetSettings
       (s\<lparr>originalImage := None, enhancedImage := None, originalMimeType := None,
          error := None, appState := Idle\<rparr>)"

text \<open>\<open>String.prototype.split\<close> with a one-character separator, and reading an array index.\<close>

fun split_on :: "char \<Rightarrow> string \<Rightarrow> string list" where
  "split_on sep [] = [[]]"
| "split_on sep (x # xs) =
     (if x = sep then [] # split_on sep xs
      else (case split_on sep xs of
              [] \<Rightarrow> [[x]]
            | w # ws \<Rightarrow> (x # w) # ws))"

definition array_index :: "'a list \<Rightarrow> nat \<Rightarrow> 'a option" where
  "array_index xs i = (if i < length xs then Some (xs ! i) else None)"

text \<open>The call \<open>enhanceImageWithGemini(base64Data, originalMimeType, prompt)\<close>.\<close>

datatype enhance_call =
  EnhanceCall (call_data: "string option") (call_mimeType: string) (call_prompt: string)

text \<open>
  \<open>handleEnhanceClick\<close> up to its \<open>await\<close>: the state after the synchronous part, and
  the call of the client it makes (\<open>None\<close> when it returns before making one).
\<close>

definition handleEnhanceClick :: "app_state \<Rightarrow> app_state \<times> enhance_call option" where
  "handleEnhanceClick s =
     (let invalid = (s\<lparr>error := Some ''Please select an image first.'', appState := Error\<rparr>, None)
      in case originalImage s of
           None \<Rightarrow> invalid
         | Some img \<Rightarrow>
             (case originalMimeType s of
                None \<Rightarrow> invalid
              | Some mime \<Rightarrow>
                  if img = [] \<or> mime = [] then invalid
                  else (s\<lparr>appState := Loading, error := None, enhancedImage := None\<rparr>,
                        Some (EnhanceCall
                                (array_index (split_on CHR '','' img) 1)
                                mime
                                (build_prompt (brightness s) (contrast s) (noiseReduction s)
                                   (artisticEffect s))))))"

text \<open>
  \<open>handleEnhanceClick\<close> after its \<open>await\<close>: the state setters run on the state that is
  current when the promise settles.
\<close>

definition enhance_settled :: "thrown + string \<Rightarrow> app_state \<Rightarrow> app_state" where
  "enhance_settled outcome s =
     (case outcome of
        Inr result \<Rightarrow> s\<lparr>enhancedImage := Some result, appState := Success\<rparr>
      | Inl err \<Rightarrow>
          s\<lparr>error := Some (case err of
                             JsError message \<Rightarrow> message
                           | NonError \<Rightarrow> ''An unexpected error occurred while enhancing the image.''),
            appState := Error\<rparr>)"

text \<open>\<open>handleDownload\<close>: the link it clicks, if any; the argument is \<open>Date.now()\<close>.\<close>

record download_link =
  href :: string
  download :: string

definition handleDownload :: "int \<Rightarrow> app_state \<Rightarrow> download_link option" where
  "handleDownload now s =
     (case enhancedImage s of
        None \<Rightarrow> None
      | Some img \<Rightarrow>
          if img = [] then None
          else Some \<lparr>href = img,
                     download = ''enhanced-image-'' @ number_toString now @ ''.png''\<rparr>)"

subsection \<open>What the interface renders\<close>

text \<open>
  The component renders the file uploader when \<open>!originalImage\<close>, and otherwise the
  sliders, the effect buttons, \<open>Reset Settings\<close> and \<open>Start Over\<close>; the \<open>Enhance Image\<close>
  button only when \<open>appState !== 'loading'\<close>, and the download button only when
  \<open>appState === 'success' && enhancedImage\<close>.
\<close>

definition uploader_rendered :: "app_state \<Rightarrow> bool" where
  "uploader_rendered s = (\<not> truthy (originalImage s))"

definition controls_rendered :: "app_state \<Rightarrow> bool" where
  "controls_rendered s = truthy (originalImage s)"

definition enhance_button_rendered :: "app_state \<Rightarrow> bool" where
  "enhance_button_rendered s = (truthy (originalImage s) \<and> appState s \<noteq> Loading)"

definition download_button_rendered :: "app_state \<Rightarrow> bool" where
  "download_button_rendered s =
     (truthy (originalImage s) \<and> appState s = Success \<and> truthy (enhancedImage s))"

subsection \<open>The component as a transition system\<close>

text \<open>
  A configuration is the state of the hooks together with what is under way: the file
  reads that have not ended yet (each with the \<open>file.type\<close> of its file) and the calls
  of the client that have not settled yet. \<open>handleFileSelect\<close> starts a read when the
  user picks a file in the uploader; the callbacks of a reader run when its read ends,
  whatever the component renders by then. A read that succeeds ends with \<open>loadend\<close>
  and the data URL as its result; a read that fails ends with \<open>error\<close> and then
  \<open>loadend\<close>, its result being \<open>null\<close>. The other events are what the user does with
  a rendered control, and the settling of a pending call with the answer of the remote
  service. The sliders are range inputs with bounds 50..150 and 0..100.
\<close>

record config =
  st :: app_state
  reading :: "string list"
  pending :: "enhance_call list"

datatype event =
    SelectFile string
  | ReadLoaded nat string
  | ReadFailed nat
  | ClickEnhance
  | Settle nat "thrown + GenerateContentResponse"
  | StartOver
  | ResetSettings
  | SetBrightness int
  | SetContrast int
  | SetNoiseReduction int
  | SetArtisticEffect ArtisticEffect
  | ClickDownload int

definition initial_config :: config where
  "initial_config = \<lparr>st = initial_state, reading = [], pending = []\<rparr>"

definition guarded :: "bool \<Rightarrow> config \<Rightarrow> config option" where
  "guarded b c = (if b then Some c else None)"

definition remove_nth :: "nat \<Rightarrow> 'a list \<Rightarrow> 'a list" where
  "remove_nth i xs = take i xs @ drop (Suc i) xs"

fun step :: "event \<Rightarrow> config \<Rightarrow> config option" where
  "step (SelectFile file_type) c =
     guarded (uploader_rendered (st c)) (c\<lparr>reading := reading c @ [file_type]\<rparr>)"
| "step (ReadLoaded i result) c =
     guarded (i < length (reading c))
       (c\<lparr>st := onloadend (Some result) (reading c ! i) (st c),
          reading := remove_nth i (reading c)\<rparr>)"
| "step (ReadFailed i) c =
     guarded (i < length (reading c))
       (c\<lparr>st := onloadend None (reading c ! i) (onerror (st c)),
          reading := remove_nth i (reading c)\<rparr>)"
| "step ClickEnhance c =
     guarded (enhance_button_rendered (st c))
       (case handleEnhanceClick (st c) of
          (s', None) \<Rightarrow> c\<lparr>st := s'\<rparr>
        | (s', Some call) \<Rightarrow> c\<lparr>st := s', pending := pending c @ [call]\<rparr>)"
| "step (Settle i answer) c =
     guarded (i < length (pending c))
       (let call = pending c ! i
        in c\<lparr>st := enhance_settled
                      (enhanceImageWithGemini (\<lambda>_. answer) (call_data call)
                         (call_mimeType call) (call_prompt call))
                      (st c),
              pending := remove_nth i (pending c)\<rparr>)"
| "step StartOver c =
     guarded (controls_rendered (st c)) (c\<lparr>st := handleReset (st c)\<rparr>)"
| "step ResetSettings c =
     guarded (controls_rendered (st c)) (c\<lparr>st := handleResetSettings (st c)\<rparr>)"
| "step (SetBrightness v) c =
     guarded (controls_rendered (st c) \<and> 50 \<le> v \<and> v \<le> 150) (c\<lparr>st := (st c)\<lparr>brightness := v\<rparr>\<rparr>)"
| "step (SetContrast v) c =
     guarded (controls_rendered (st c) \<and> 50 \<le> v \<and> v \<le> 150) (c\<lparr>st := (st c)\<lparr>contrast := v\<rparr>\<rparr>)"
| "step (SetNoiseReduction v) c =
     guarded (controls_rendered (st c) \<and> 0 \<le> v \<and> v \<le> 100)
       (c\<lparr>st := (st c)\<lparr>noiseReduction := v\<rparr>\<rparr>)"
| "step (SetArtisticEffect e) c =
     guarded (controls_rendered (st c)) (c\<lparr>st := (st c)\<lparr>artisticEffect := e\<rparr>\<rparr>)"
| "step (ClickDownload now) c =
     guarded (download_button_rendered (st c)) c"

fun run :: "event list \<Rightarrow> config \<Rightarrow> config option" where
  "run [] c = Some c"
| "run (e # es) c = (case step e c of None \<Rightarrow> None | Some c' \<Rightarrow> run es c')"

text \<open>
  The events that set the state back: \<open>Start Over\<close> and the end of a file read. The
  discipline under which the state invariant holds is that none of them happens while a
  call is pending. It is a restriction on the environment, not something the component
  checks.
\<close>

fun sets_back :: "event \<Rightarrow> bool" where
  "sets_back StartOver = True"
| "sets_back (ReadLoaded i result) = True"
| "sets_back (ReadFailed i) = True"
| "sets_back _ = False"

definition step_calm :: "event \<Rightarrow> config \<Rightarrow> config option" where
  "step_calm e c = (if sets_back e \<and> pending c \<noteq> [] then None else step e c)"

fun run_calm :: "event list \<Rightarrow> config \<Rightarrow> config option" where
  "run_calm [] c = Some c"
| "run_calm (e # es) c = (case step_calm e c of None \<Rightarrow> None | Some c' \<Rightarrow> run_calm es c')"

subsection \<open>Invariants\<close>

definition settings_at_defaults :: "app_state \<Rightarrow> bool" where
  "settings_at_defaults s =
     (brightness s = 100 \<and> contrast s = 100 \<and> noiseReduction s = 0 \<and> artisticEffect s = EffNone)"

text \<open>
  The invariant of the specification: an enhanced image only in state success, an error
  message only in state error, and without a source image the settings are at their
  defaults and the state is idle.
\<close>

definition state_invariant :: "app_state \<Rightarrow> bool" where
  "state_invariant s =
     ((enhancedImage s \<noteq> None \<longrightarrow> appState s = Success)
      \<and> (error s \<noteq> None \<longrightarrow> appState s = Error)
      \<and> (originalImage s = None \<longrightarrow> settings_at_defaults s \<and> appState s = Idle))"

text \<open>The inductive strengthening: it also relates the pending calls to the state.\<close>

definition config_invariant :: "config \<Rightarrow> bool" where
  "config_invariant c =
     ((enhancedImage (st c) \<noteq> None \<longrightarrow>
         appState (st c) = Success \<and> truthy (originalMimeType (st c)))
      \<and> (error (st c) \<noteq> None \<longrightarrow> appState (st c) = Error)
      \<and> (\<not> truthy (originalImage (st c)) \<longrightarrow>
            settings_at_defaults (st c) \<and> appState (st c) = Idle)
      \<and> (appState (st c) = Loading \<longrightarrow>
            truthy (originalMimeType (st c)) \<and> length (pending c) = 1)
      \<and> (appState (st c) \<noteq> Loading \<longrightarrow> pending c = []))"

subsection \<open>Failures of the remote call\<close>

text \<open>
  Modelled from the spec: the library that makes the remote call, and with it the shape
  of the errors the call throws, is not part of the sources. The specification speaks of
  an underlying error that indicates a rate or quota limit, the equivalent of HTTP status
  429. So a failure of the remote call is the HTTP status of the answer, when there was
  one, together with the value the call throws; the client sees the thrown value only.
\<close>

record remote_failure =
  http_status :: "nat option"
  thrown_value :: thrown

definition rate_limit_failure :: "remote_failure \<Rightarrow> bool" where
  "rate_limit_failure f = (http_status f = Some 429)"

text \<open>A remote call that fails with the given failure, whatever the request.\<close>

definition failing_with ::
  "remote_failure \<Rightarrow> GenerateContentParameters \<Rightarrow> thrown + GenerateContentResponse" where
  "failing_with f request = Inl (thrown_value f)"

section \<open>Facts about number rendering\<close>

lemma number_toString_60: "number_toString 60 = ''60''"
  by (simp add: number_toString_def digits_of_nat.simps)

lemma number_toString_100: "number_toString 100 = ''100''"
  by (simp add: number_toString_def digits_of_nat.simps)

lemma number_toString_110: "number_toString 110 = ''110''"
  by (simp add: number_toString_def digits_of_nat.simps)

lemma number_toString_130: "number_toString 130 = ''130''"
  by (simp add: number_toString_def digits_of_nat.simps)

lemma number_toString_150: "number_toString 150 = ''150''"
  by (simp add: number_toString_def digits_of_nat.simps)

lemma number_toString_180: "number_toString 180 = ''180''"
  by (simp add: number_toString_def digits_of_nat.simps)

lemma number_toString_200: "number_toString 200 = ''200''"
  by (simp add: number_toString_def digits_of_nat.simps)

lemmas number_toString_table =
  number_toString_60 number_toString_100 number_toString_110 number_toString_130
  number_toString_150 number_toString_180 number_toString_200

text \<open>The definitions a run on concrete inputs unfolds.\<close>

lemmas handler_defs =
  initial_config_def initial_state_def guarded_def uploader_rendered_def controls_rendered_def
  enhance_button_rendered_def download_button_rendered_def truthy_def onloadend_def onerror_def
  handleReset_def handleResetSettings_def handleEnhanceClick_def enhance_settled_def
  enhanceImageWithGemini_def try_block_def catch_block_def imageResponsePart_def
  template_str_def step_calm_def remove_nth_def

section \<open>The prompt compiler\<close>

text \<open>
  Claim C1. For all settings (in particular for brightness and contrast in 50..150 and
  noise reduction in 0..100) the prompt is the base sentence followed, in this order, by
  the brightness clause exactly when brightness differs from 100, the contrast clause
  exactly when contrast differs from 100, the noise-reduction clause exactly when noise
  reduction is positive, and the clause of the artistic effect, which is empty exactly for
  the effect none. Nothing else is added, so the default settings give the base sentence.
\<close>

theorem C1_prompt_closed_form:
  "build_prompt b c n e =
     base_sentence
     @ (if b \<noteq> 100 then '' Adjust the brightness to be around '' @ number_toString b @ ''%.'' else [])
     @ (if c \<noteq> 100 then '' Adjust the contrast to be around '' @ number_toString c @ ''%.'' else [])
     @ (if n > 0 then '' Apply noise reduction at an intensity of about '' @ number_toString n @ ''%.'' else [])
     @ effect_clause e
   \<and> (effect_clause e = [] \<longleftrightarrow> e = EffNone)
   \<and> build_prompt 100 100 0 EffNone = base_sentence"
  by (cases e) (simp_all add: build_prompt_def base_sentence_def effect_clause_def)

text \<open>The scenario of the specification with every clause present.\<close>

lemma prompt_all_clauses:
  "build_prompt 120 80 30 Sepia =
     ''Fix this old and damaged photo. Improve its overall quality, and adjust the lighting and contrast to make it look more vibrant and clear. Adjust the brightness to be around 120%. Adjust the contrast to be around 80%. Apply noise reduction at an intensity of about 30%. Apply a warm sepia tone to the image.''"
  by (simp add: build_prompt_def number_toString_def digits_of_nat.simps)

section \<open>The preview filter compiler\<close>

text \<open>
  Claim C5. For every brightness, contrast and effect the preview filter is the rendering
  of the operation sequence brightness(b%), contrast(c%) followed by the operations the
  specification's table gives for the effect, and that sequence has 2 plus 0 to 3
  operations. (Purity is the fact that \<open>computedFilter\<close> is a function of its three
  arguments.)
\<close>

theorem C5_preview_filter_ops:
  "computedFilter b c e = render_ops (spec_filter_ops b c e)
   \<and> take 2 (spec_filter_ops b c e) = [(''brightness'', b), (''contrast'', c)]
   \<and> drop 2 (spec_filter_ops b c e) = spec_effect_ops e
   \<and> length (spec_filter_ops b c e) = 2 + length (spec_effect_ops e)
   \<and> length (spec_effect_ops e) \<le> 3"
  by (cases e)
     (simp_all add: computedFilter_def spec_filter_ops_def spec_effect_ops_def render_op_def
        number_toString_table)

section \<open>The enhancement client\<close>

lemma find_first:
  "\<forall>q \<in> set pre. \<not> P q \<Longrightarrow> P p \<Longrightarrow> find P (pre @ p # post) = Some p"
  by (induction pre) auto

lemma missing_image_message_no_429:
  "\<not> str_includes ''No image found in the API response.'' ''429''"
  by (simp add: str_includes_def sublist_Cons_right)

lemma imageResponsePart_None:
  assumes "\<forall>p \<in> set (all_parts response). inlineData p = None"
  shows "imageResponsePart response = None"
  using assms
  by (auto simp: imageResponsePart_def all_parts_def candidate_parts_def find_None_iff
      split: option.splits list.splits)

text \<open>
  Claim C7. When the remote call answers with a response none of whose candidate parts
  carries inline image data, the client rejects with the generic failure. The client is
  a total function of the one answer of the remote call: it does not call again, and it
  yields no image.
\<close>

theorem C7_no_image_generic_failure:
  assumes "generateContent (client_request base64ImageData mimeType' prompt) = Inr response"
    and "\<forall>p \<in> set (all_parts response). inlineData p = None"
  shows "enhanceImageWithGemini generateContent base64ImageData mimeType' prompt =
           Inl (JsError ''Failed to enhance the image. Please check the console for more details.'')"
proof -
  have "imageResponsePart response = None"
    using assms(2) by (rule imageResponsePart_None)
  then show ?thesis
    using assms(1) missing_image_message_no_429
    by (simp add: enhanceImageWithGemini_def try_block_def catch_block_def)
qed

theorem C7_witness:
  "enhanceImageWithGemini
     (\<lambda>_. Inr \<lparr>candidates = Some [\<lparr>content = Some \<lparr>parts = Some
                 [\<lparr>part_text = Some ''Sorry, no picture.'', inlineData = None\<rparr>]\<rparr>\<rparr>]\<rparr>)
     (Some ''AAAA'') ''image/png'' ''Fix this old and damaged photo.''
   = Inl (JsError ''Failed to enhance the image. Please check the console for more details.'')"
  by (rule C7_no_image_generic_failure [where response =
        "\<lparr>candidates = Some [\<lparr>content = Some \<lparr>parts = Some
           [\<lparr>part_text = Some ''Sorry, no picture.'', inlineData = None\<rparr>]\<rparr>\<rparr>]\<rparr>"])
     (simp_all add: all_parts_def candidate_parts_def)

text \<open>
  Claim C6, as stated, fails. The client never looks at an HTTP status. A rate-limit
  failure (status 429) whose error message lacks the digits 429 is rejected with the
  generic message; and a failure with status 400, whose message happens to contain 429,
  is rejected with the rate-limit message, so that message does not tell a rate limit
  from other failures.
\<close>

theorem C6_counterexample:
  "rate_limit_failure \<lparr>http_status = Some 429, thrown_value = JsError ''{}''\<rparr>
   \<and> enhanceImageWithGemini
         (failing_with \<lparr>http_status = Some 429, thrown_value = JsError ''{}''\<rparr>)
         (Some ''AAAA'') ''image/png'' ''Fix this old and damaged photo.''
       = Inl (JsError ''Failed to enhance the image. Please check the console for more details.'')
   \<and> \<not> rate_limit_failure
         \<lparr>http_status = Some 400,
          thrown_value = JsError ''The image of 14290 bytes is too small.''\<rparr>
   \<and> enhanceImageWithGemini
         (failing_with \<lparr>http_status = Some 400,
                        thrown_value = JsError ''The image of 14290 bytes is too small.''\<rparr>)
         (Some ''AAAA'') ''image/png'' ''Fix this old and damaged photo.''
       = Inl (JsError ''Request limit exceeded. Please try again later.'')"
  by (simp add: rate_limit_failure_def failing_with_def enhanceImageWithGemini_def
      try_block_def catch_block_def str_includes_def sublist_Cons_right)

text \<open>
  Claim C6, amended. The client rejects with the rate-limit error, whose message
  \<open>Request limit exceeded. Please try again later.\<close> tells the caller to try again later,
  exactly when the remote call throws an \<open>Error\<close> whose message contains \<open>429\<close>. The
  text of the message is all that decides: every other failure, whatever its HTTP status,
  is rejected with another message.
\<close>

theorem C6_rate_limit_by_message:
  "(enhanceImageWithGemini generateContent base64ImageData mimeType' prompt =
      Inl (JsError ''Request limit exceeded. Please try again later.'')
    \<longleftrightarrow> (\<exists>message. generateContent (client_request base64ImageData mimeType' prompt) =
                       Inl (JsError message)
                   \<and> str_includes message ''429''))
   \<and> str_includes ''Request limit exceeded. Please try again later.'' ''try again later''"
proof -
  let ?answer = "generateContent (client_request base64ImageData mimeType' prompt)"
  let ?limit = "''Request limit exceeded. Please try again later.''"
  have differ: "''Failed to enhance the image. Please check the console for more details.''
                  \<noteq> ?limit"
    by simp
  have catch: "catch_block err = JsError ?limit
                 \<longleftrightarrow> (\<exists>message. err = JsError message \<and> str_includes message ''429'')" for err
    using differ by (cases err) (simp_all add: catch_block_def)
  have thrown: "?answer = Inl (JsError message)"
    if "try_block ?answer = Inl (JsError message)" and "str_includes message ''429''"
    for message
    using that missing_image_message_no_429
    by (auto simp: try_block_def split: sum.splits option.splits)
  have "enhanceImageWithGemini generateContent base64ImageData mimeType' prompt
          = Inl (JsError ?limit)
        \<longleftrightarrow> (\<exists>message. ?answer = Inl (JsError message) \<and> str_includes message ''429'')"
  proof
    assume "enhanceImageWithGemini generateContent base64ImageData mimeType' prompt
              = Inl (JsError ?limit)"
    then obtain err where t: "try_block ?answer = Inl err" and c: "catch_block err = JsError ?limit"
      by (auto simp: enhanceImageWithGemini_def split: sum.splits)
    from c obtain message where m: "err = JsError message" "str_includes message ''429''"
      using catch by blast
    with t have "?answer = Inl (JsError message)"
      using thrown by blast
    with m show "\<exists>message. ?answer = Inl (JsError message) \<and> str_includes message ''429''"
      by blast
  next
    assume "\<exists>message. ?answer = Inl (JsError message) \<and> str_includes message ''429''"
    then show "enhanceImageWithGemini generateContent base64ImageData mimeType' prompt
                 = Inl (JsError ?limit)"
      by (auto simp: enhanceImageWithGemini_def try_block_def catch_block_def)
  qed
  moreover have "str_includes ?limit ''try again later''"
    by (simp add: str_includes_def sublist_Cons_right)
  ultimately show ?thesis by blast
qed

theorem C6_witness:
  "enhanceImageWithGemini
     (failing_with \<lparr>http_status = Some 429,
                    thrown_value = JsError ''got status: 429 Too Many Requests''\<rparr>)
     (Some ''AAAA'') ''image/png'' ''Fix this old and damaged photo.''
   = Inl (JsError ''Request limit exceeded. Please try again later.'')
   \<and> enhanceImageWithGemini
       (failing_with \<lparr>http_status = Some 503, thrown_value = JsError ''fetch failed''\<rparr>)
       (Some ''AAAA'') ''image/png'' ''Fix this old and damaged photo.''
     \<noteq> Inl (JsError ''Request limit exceeded. Please try again later.'')"
proof -
  have a: "str_includes ''got status: 429 Too Many Requests'' ''429''"
    by (simp add: str_includes_def sublist_Cons_right)
  have b: "\<not> str_includes ''fetch failed'' ''429''"
    by (simp add: str_includes_def sublist_Cons_right)
  show ?thesis
    using a b
      C6_rate_limit_by_message
        [of "failing_with \<lparr>http_status = Some 429,
                           thrown_value = JsError ''got status: 429 Too Many Requests''\<rparr>"
            "Some ''AAAA''" "''image/png''" "''Fix this old and damaged photo.''"]
      C6_rate_limit_by_message
        [of "failing_with \<lparr>http_status = Some 503, thrown_value = JsError ''fetch failed''\<rparr>"
            "Some ''AAAA''" "''image/png''" "''Fix this old and damaged photo.''"]
    by (simp add: failing_with_def)
qed

text \<open>
  Claim C9. When the remote call answers with a response whose first candidate has a part
  with inline image data, the client resolves to the data URL built from the first such
  part: \<open>data:\<close>, the MIME type of the part, \<open>;base64,\<close> and the payload. The controller
  then stores that URL as the enhanced image and sets the state to success.
\<close>

theorem C9_success_blob:
  assumes "generateContent (client_request base64ImageData mimeType' prompt) = Inr response"
    and "candidates response = Some (c # cs)"
    and "content c = Some ct"
    and "parts ct = Some (pre @ p # post)"
    and "\<forall>q \<in> set pre. inlineData q = None"
    and "inlineData p = Some b"
    and "mimeType b = Some m"
  shows "enhanceImageWithGemini generateContent base64ImageData mimeType' prompt =
           Inr (''data:'' @ m @ '';base64,'' @ template_str (data b))
         \<and> enhance_settled
             (enhanceImageWithGemini generateContent base64ImageData mimeType' prompt) s =
             s\<lparr>enhancedImage := Some (''data:'' @ m @ '';base64,'' @ template_str (data b)),
               appState := Success\<rparr>"
proof -
  have "find (\<lambda>part. inlineData part \<noteq> None) (pre @ p # post) = Some p"
    using assms(5,6) by (intro find_first) auto
  then have "imageResponsePart response = Some p"
    using assms(2,3,4) by (simp add: imageResponsePart_def)
  then have "enhanceImageWithGemini generateContent base64ImageData mimeType' prompt =
           Inr (''data:'' @ m @ '';base64,'' @ template_str (data b))"
    using assms(1,6,7) by (simp add: enhanceImageWithGemini_def try_block_def template_str_def)
  then show ?thesis
    by (simp add: enhance_settled_def)
qed

theorem C9_witness:
  "enhanceImageWithGemini
     (\<lambda>_. Inr \<lparr>candidates = Some [\<lparr>content = Some \<lparr>parts = Some
                 [\<lparr>part_text = Some ''Here is the picture.'', inlineData = None\<rparr>,
                  \<lparr>part_text = None,
                   inlineData = Some \<lparr>data = Some ''BBBB'', mimeType = Some ''image/jpeg''\<rparr>\<rparr>]\<rparr>\<rparr>]\<rparr>)
     (Some ''AAAA'') ''image/png'' ''Fix this old and damaged photo.''
   = Inr ''data:image/jpeg;base64,BBBB''
   \<and> enhancedImage (enhance_settled
        (enhanceImageWithGemini
          (\<lambda>_. Inr \<lparr>candidates = Some [\<lparr>content = Some \<lparr>parts = Some
                 [\<lparr>part_text = Some ''Here is the picture.'', inlineData = None\<rparr>,
                  \<lparr>part_text = None,
                   inlineData = Some \<lparr>data = Some ''BBBB'', mimeType = Some ''image/jpeg''\<rparr>\<rparr>]\<rparr>\<rparr>]\<rparr>)
          (Some ''AAAA'') ''image/png'' ''Fix this old and damaged photo.'')
        initial_state) = Some ''data:image/jpeg;base64,BBBB''
   \<and> appState (enhance_settled
        (enhanceImageWithGemini
          (\<lambda>_. Inr \<lparr>candidates = Some [\<lparr>content = Some \<lparr>parts = Some
                 [\<lparr>part_text = Some ''Here is the picture.'', inlineData = None\<rparr>,
                  \<lparr>part_text = None,
                   inlineData = Some \<lparr>data = Some ''BBBB'', mimeType = Some ''image/jpeg''\<rparr>\<rparr>]\<rparr>\<rparr>]\<rparr>)
          (Some ''AAAA'') ''image/png'' ''Fix this old and damaged photo.'')
        initial_state) = Success"
  using C9_success_blob
    [of "\<lambda>_. Inr \<lparr>candidates = Some [\<lparr>content = Some \<lparr>parts = Some
                 [\<lparr>part_text = Some ''Here is the picture.'', inlineData = None\<rparr>,
                  \<lparr>part_text = None,
                   inlineData = Some \<lparr>data = Some ''BBBB'', mimeType = Some ''image/jpeg''\<rparr>\<rparr>]\<rparr>\<rparr>]\<rparr>"
        "Some ''AAAA''" "''image/png''" "''Fix this old and damaged photo.''"
        "\<lparr>candidates = Some [\<lparr>content = Some \<lparr>parts = Some
                 [\<lparr>part_text = Some ''Here is the picture.'', inlineData = None\<rparr>,
                  \<lparr>part_text = None,
                   inlineData = Some \<lparr>data = Some ''BBBB'', mimeType = Some ''image/jpeg''\<rparr>\<rparr>]\<rparr>\<rparr>]\<rparr>"
        "\<lparr>content = Some \<lparr>parts = Some
                 [\<lparr>part_text = Some ''Here is the picture.'', inlineData = None\<rparr>,
                  \<lparr>part_text = None,
                   inlineData = Some \<lparr>data = Some ''BBBB'', mimeType = Some ''image/jpeg''\<rparr>\<rparr>]\<rparr>\<rparr>"
        "[]"
        "\<lparr>parts = Some
                 [\<lparr>part_text = Some ''Here is the picture.'', inlineData = None\<rparr>,
                  \<lparr>part_text = None,
                   inlineData = Some \<lparr>data = Some ''BBBB'', mimeType = Some ''image/jpeg''\<rparr>\<rparr>]\<rparr>"
        "[\<lparr>part_text = Some ''Here is the picture.'', inlineData = None\<rparr>]"
        "\<lparr>part_text = None,
          inlineData = Some \<lparr>data = Some ''BBBB'', mimeType = Some ''image/jpeg''\<rparr>\<rparr>"
        "[]"
        "\<lparr>data = Some ''BBBB'', mimeType = Some ''image/jpeg''\<rparr>"
        "''image/jpeg''"
        initial_state]
  by (simp add: template_str_def enhance_settled_def)

text \<open>
  Claim C10. Every rejection of the client carries one of two fixed messages. Which one is
  decided by the error caught: an \<open>Error\<close> whose message contains \<open>429\<close> gives the
  rate-limit message; every other \<open>Error\<close>, every thrown value that is not an \<open>Error\<close>,
  and a response without an image give the generic message; a response with an image does
  not reject. So an error that has nothing to do with rate limits, but whose message
  contains \<open>429\<close>, counts as rate-limited.
\<close>

theorem C10_two_messages:
  "(enhanceImageWithGemini generateContent base64ImageData mimeType' prompt = Inl e \<longrightarrow>
      e = JsError ''Request limit exceeded. Please try again later.''
      \<or> e = JsError ''Failed to enhance the image. Please check the console for more details.'')
   \<and> (generateContent (client_request base64ImageData mimeType' prompt) = Inl (JsError message) \<longrightarrow>
        enhanceImageWithGemini generateContent base64ImageData mimeType' prompt =
          Inl (JsError (if str_includes message ''429''
                        then ''Request limit exceeded. Please try again later.''
                        else ''Failed to enhance the image. Please check the console for more details.'')))
   \<and> (generateContent (client_request base64ImageData mimeType' prompt) = Inl NonError \<longrightarrow>
        enhanceImageWithGemini generateContent base64ImageData mimeType' prompt =
          Inl (JsError ''Failed to enhance the image. Please check the console for more details.''))
   \<and> (generateContent (client_request base64ImageData mimeType' prompt) = Inr response \<longrightarrow>
        imageResponsePart response = None \<longrightarrow>
        enhanceImageWithGemini generateContent base64ImageData mimeType' prompt =
          Inl (JsError ''Failed to enhance the image. Please check the console for more details.''))
   \<and> (generateContent (client_request base64ImageData mimeType' prompt) = Inr response \<longrightarrow>
        imageResponsePart response \<noteq> None \<longrightarrow>
        (\<exists>url. enhanceImageWithGemini generateContent base64ImageData mimeType' prompt = Inr url))"
  using missing_image_message_no_429
  by (auto simp: enhanceImageWithGemini_def try_block_def catch_block_def imageResponsePart_def
      find_Some_iff split: sum.splits option.splits list.splits thrown.splits)

theorem C10_witness:
  "enhanceImageWithGemini (\<lambda>_. Inl (JsError ''The image of 14290 bytes is too small.''))
     (Some ''AAAA'') ''image/png'' ''Fix this old and damaged photo.''
   = Inl (JsError ''Request limit exceeded. Please try again later.'')
   \<and> enhanceImageWithGemini (\<lambda>_. Inl (JsError ''fetch failed''))
     (Some ''AAAA'') ''image/png'' ''Fix this old and damaged photo.''
   = Inl (JsError ''Failed to enhance the image. Please check the console for more details.'')"
proof -
  have a: "str_includes ''The image of 14290 bytes is too small.'' ''429''"
    by (simp add: str_includes_def sublist_Cons_right)
  have b: "\<not> str_includes ''fetch failed'' ''429''"
    by (simp add: str_includes_def sublist_Cons_right)
  show ?thesis
    using a b
      C10_two_messages [of "\<lambda>_. Inl (JsError ''The image of 14290 bytes is too small.'')"
        "Some ''AAAA''" "''image/png''" "''Fix this old and damaged photo.''" undefined
        "''The image of 14290 bytes is too small.''" undefined]
      C10_two_messages [of "\<lambda>_. Inl (JsError ''fetch failed'')"
        "Some ''AAAA''" "''image/png''" "''Fix this old and damaged photo.''" undefined
        "''fetch failed''" undefined]
    by simp
qed

section \<open>The controller's handlers\<close>

text \<open>
  Claim C8. When the enhance action runs while there is no source image, the state
  becomes the error state with the local validation message, and the handler returns
  before it calls the client.
\<close>

theorem C8_enhance_without_image:
  "originalImage s = None \<Longrightarrow>
     snd (handleEnhanceClick s) = None
     \<and> fst (handleEnhanceClick s) =
         s\<lparr>error := Some ''Please select an image first.'', appState := Error\<rparr>"
  by (simp add: handleEnhanceClick_def)

theorem C8_witness:
  "originalImage initial_state = None
   \<and> snd (handleEnhanceClick initial_state) = None
   \<and> appState (fst (handleEnhanceClick initial_state)) = Error
   \<and> error (fst (handleEnhanceClick initial_state)) = Some ''Please select an image first.''"
proof -
  have h: "originalImage initial_state = None"
    by (simp add: initial_state_def)
  from C8_enhance_without_image [OF h] h show ?thesis by simp
qed

text \<open>
  Claim C4, as stated, fails: the name of the downloaded file ends in \<open>.png\<close> also when
  the enhanced image is a JPEG data URL.
\<close>

theorem C4_counterexample:
  "map_option download
     (handleDownload 1700000000000
        (initial_state\<lparr>originalImage := Some ''data:image/png;base64,AAAA'',
                       originalMimeType := Some ''image/png'',
                       enhancedImage := Some ''data:image/jpeg;base64,BBBB'',
                       appState := Success\<rparr>))
   = Some ''enhanced-image-1700000000000.png''"
  by (simp add: handleDownload_def initial_state_def number_toString_def digits_of_nat.simps)

text \<open>
  Claim C4, amended. For every non-empty enhanced image, the download action exports it
  under the name \<open>enhanced-image-\<close>, the timestamp in decimal, \<open>.png\<close>, whatever the MIME
  type of the image; the link points to the enhanced image itself.
\<close>

theorem C4_download_name_png:
  "enhancedImage s = Some img \<Longrightarrow> img \<noteq> [] \<Longrightarrow>
     handleDownload now s =
       Some \<lparr>href = img, download = ''enhanced-image-'' @ number_toString now @ ''.png''\<rparr>"
  by (simp add: handleDownload_def)

theorem C4_witness:
  "handleDownload 42 (initial_state\<lparr>enhancedImage := Some ''data:image/webp;base64,CCCC''\<rparr>)
   = Some \<lparr>href = ''data:image/webp;base64,CCCC'', download = ''enhanced-image-42.png''\<rparr>"
proof -
  have "number_toString 42 = ''42''"
    by (simp add: number_toString_def digits_of_nat.simps)
  then show ?thesis
    using C4_download_name_png
      [of "initial_state\<lparr>enhancedImage := Some ''data:image/webp;base64,CCCC''\<rparr>"
          "''data:image/webp;base64,CCCC''" 42]
    by simp
qed

section \<open>The invariant of the calm runs\<close>

lemma config_invariant_initial: "config_invariant initial_config"
  by (simp add: config_invariant_def initial_config_def initial_state_def
      settings_at_defaults_def truthy_def)

lemma config_invariant_state: "config_invariant c \<Longrightarrow> state_invariant (st c)"
  by (auto simp: config_invariant_def state_invariant_def truthy_def)

lemma handleEnhanceClick_cases:
  "handleEnhanceClick s =
     (if truthy (originalImage s) \<and> truthy (originalMimeType s)
      then (s\<lparr>appState := Loading, error := None, enhancedImage := None\<rparr>,
            Some (EnhanceCall
                    (array_index (split_on CHR '','' (the (originalImage s))) 1)
                    (the (originalMimeType s))
                    (build_prompt (brightness s) (contrast s) (noiseReduction s)
                       (artisticEffect s))))
      else (s\<lparr>error := Some ''Please select an image first.'', appState := Error\<rparr>, None))"
  by (auto simp: handleEnhanceClick_def truthy_def Let_def split: option.splits)

lemma invariant_Settle:
  assumes "config_invariant c" and "step (Settle i answer) c = Some c'"
  shows "config_invariant c'"
proof -
  from assms(2) have i: "i < length (pending c)"
    by (simp add: guarded_def split: if_splits)
  then have "pending c \<noteq> []" by auto
  with assms(1) have L: "appState (st c) = Loading" and len: "length (pending c) = 1"
    and mime: "truthy (originalMimeType (st c))"
    by (auto simp: config_invariant_def)
  from L assms(1) have e: "enhancedImage (st c) = None" and er: "error (st c) = None"
    and orig: "truthy (originalImage (st c))"
    by (auto simp: config_invariant_def)
  from i len have i0: "i = 0" by simp
  obtain call where p: "pending c = [call]"
    using len by (cases "pending c") auto
  define out where "out = enhanceImageWithGemini (\<lambda>_. answer) (call_data call)
                         (call_mimeType call) (call_prompt call)"
  from assms(2) i0 p have c': "c' = c\<lparr>st := enhance_settled out (st c), pending := []\<rparr>"
    by (simp add: guarded_def out_def remove_nth_def)
  show ?thesis
  proof (cases out)
    case (Inl err)
    with c' e er orig mime show ?thesis
      by (simp add: config_invariant_def enhance_settled_def)
  next
    case (Inr url)
    with c' e er orig mime show ?thesis
      by (simp add: config_invariant_def enhance_settled_def)
  qed
qed

lemma invariant_setting:
  assumes "config_invariant c" and "truthy (originalImage (st c))"
    and "originalImage s' = originalImage (st c)"
    and "originalMimeType s' = originalMimeType (st c)"
    and "enhancedImage s' = enhancedImage (st c)"
    and "appState s' = appState (st c)"
    and "error s' = error (st c)"
  shows "config_invariant (c\<lparr>st := s'\<rparr>)"
  using assms by (simp add: config_invariant_def)

lemma invariant_SelectFile:
  assumes "config_invariant c" and "step (SelectFile file_type) c = Some c'"
  shows "config_invariant c'"
proof -
  from assms(2) have "c' = c\<lparr>reading := reading c @ [file_type]\<rparr>"
    by (simp add: guarded_def split: if_splits)
  with assms(1) show ?thesis
    by (simp add: config_invariant_def)
qed

lemma invariant_ReadLoaded:
  assumes "pending c = []" and "step (ReadLoaded i result) c = Some c'"
  shows "config_invariant c'"
proof -
  from assms(2) have "c' = c\<lparr>st := onloadend (Some result) (reading c ! i) (st c),
                              reading := remove_nth i (reading c)\<rparr>"
    by (simp add: guarded_def split: if_splits)
  with assms(1) show ?thesis
    by (simp add: config_invariant_def onloadend_def handleResetSettings_def
        settings_at_defaults_def)
qed

lemma invariant_ReadFailed:
  assumes "pending c = []" and "step (ReadFailed i) c = Some c'"
  shows "config_invariant c'"
proof -
  from assms(2) have "c' = c\<lparr>st := onloadend None (reading c ! i) (onerror (st c)),
                              reading := remove_nth i (reading c)\<rparr>"
    by (simp add: guarded_def split: if_splits)
  with assms(1) show ?thesis
    by (simp add: config_invariant_def onloadend_def onerror_def handleResetSettings_def
        settings_at_defaults_def)
qed

lemma invariant_ClickEnhance:
  assumes "config_invariant c" and "step ClickEnhance c = Some c'"
  shows "config_invariant c'"
proof -
  from assms(2) have r: "truthy (originalImage (st c))" and nl: "appState (st c) \<noteq> Loading"
    and c': "c' = (case handleEnhanceClick (st c) of
                    (s', None) \<Rightarrow> c\<lparr>st := s'\<rparr>
                  | (s', Some call) \<Rightarrow> c\<lparr>st := s', pending := pending c @ [call]\<rparr>)"
    by (simp_all add: guarded_def enhance_button_rendered_def split: if_splits)
  from nl assms(1) have p: "pending c = []"
    by (simp add: config_invariant_def)
  show ?thesis
  proof (cases "truthy (originalMimeType (st c))")
    case True
    with r c' p show ?thesis
      by (simp add: handleEnhanceClick_cases config_invariant_def)
  next
    case False
    with assms(1) have "enhancedImage (st c) = None"
      by (auto simp: config_invariant_def)
    with False r c' p show ?thesis
      by (simp add: handleEnhanceClick_cases config_invariant_def)
  qed
qed

lemma invariant_StartOver:
  assumes "pending c = []" and "step StartOver c = Some c'"
  shows "config_invariant c'"
proof -
  from assms(2) have "c' = c\<lparr>st := handleReset (st c)\<rparr>"
    by (simp add: guarded_def split: if_splits)
  with assms(1) show ?thesis
    by (simp add: config_invariant_def handleReset_def handleResetSettings_def
        settings_at_defaults_def truthy_def)
qed

lemma step_calm_invariant:
  assumes "config_invariant c" and "step_calm e c = Some c'"
  shows "config_invariant c'"
proof -
  from assms(2) have s: "step e c = Some c'" and calm: "sets_back e \<Longrightarrow> pending c = []"
    by (auto simp: step_calm_def split: if_splits)
  show ?thesis
  proof (cases e)
    case (SelectFile file_type)
    with s assms(1) show ?thesis by (simp only: invariant_SelectFile)
  next
    case (ReadLoaded i result)
    with calm have "pending c = []" by simp
    with s ReadLoaded show ?thesis by (simp only: invariant_ReadLoaded)
  next
    case (ReadFailed i)
    with calm have "pending c = []" by simp
    with s ReadFailed show ?thesis by (simp only: invariant_ReadFailed)
  next
    case ClickEnhance
    with s assms(1) show ?thesis by (simp only: invariant_ClickEnhance)
  next
    case (Settle i answer)
    with s assms(1) show ?thesis by (simp only: invariant_Settle)
  next
    case StartOver
    with calm have "pending c = []" by simp
    with s StartOver show ?thesis by (simp only: invariant_StartOver)
  next
    case ResetSettings
    with s have "c' = c\<lparr>st := handleResetSettings (st c)\<rparr>" and "truthy (originalImage (st c))"
      by (simp_all add: guarded_def controls_rendered_def split: if_splits)
    with assms(1) show ?thesis
      by (simp add: invariant_setting handleResetSettings_def)
  next
    case (SetBrightness v)
    with s have "c' = c\<lparr>st := (st c)\<lparr>brightness := v\<rparr>\<rparr>" and "truthy (originalImage (st c))"
      by (simp_all add: guarded_def controls_rendered_def split: if_splits)
    with assms(1) show ?thesis
      by (simp add: invariant_setting)
  next
    case (SetContrast v)
    with s have "c' = c\<lparr>st := (st c)\<lparr>contrast := v\<rparr>\<rparr>" and "truthy (originalImage (st c))"
      by (simp_all add: guarded_def controls_rendered_def split: if_splits)
    with assms(1) show ?thesis
      by (simp add: invariant_setting)
  next
    case (SetNoiseReduction v)
    with s have "c' = c\<lparr>st := (st c)\<lparr>noiseReduction := v\<rparr>\<rparr>"
      and "truthy (originalImage (st c))"
      by (simp_all add: guarded_def controls_rendered_def split: if_splits)
    with assms(1) show ?thesis
      by (simp add: invariant_setting)
  next
    case (SetArtisticEffect x)
    with s have "c' = c\<lparr>st := (st c)\<lparr>artisticEffect := x\<rparr>\<rparr>"
      and "truthy (originalImage (st c))"
      by (simp_all add: guarded_def controls_rendered_def split: if_splits)
    with assms(1) show ?thesis
      by (simp add: invariant_setting)
  next
    case (ClickDownload now)
    with s have "c' = c"
      by (simp add: guarded_def split: if_splits)
    with assms(1) show ?thesis by simp
  qed
qed

lemma run_calm_invariant:
  "config_invariant c \<Longrightarrow> run_calm es c = Some c' \<Longrightarrow> config_invariant c'"
proof (induction es arbitrary: c)
  case Nil
  then show ?case by simp
next
  case (Cons e es)
  then show ?case
    by (auto split: option.splits dest: step_calm_invariant)
qed

lemma config_invariant_single_flight: "config_invariant c \<Longrightarrow> length (pending c) \<le> 1"
  by (cases "appState (st c) = Loading") (simp_all add: config_invariant_def)

section \<open>Single flight and freshness\<close>

text \<open>
  Claim C3, as stated, fails. The handler has no guard on the state: called in state
  loading with an image present, it issues a second call. Through the rendered controls
  alone two calls are pending at once: image, enhance, \<open>Start Over\<close>, image, enhance. And
  after image, enhance and \<open>Start Over\<close> the state is the initial one, but the late answer
  of the pending call changes it: the enhanced image is set and the state is success.
\<close>

theorem C3_counterexample:
  "handleEnhanceClick
     (initial_state\<lparr>originalImage := Some ''data:image/png;base64,AAAA'',
                    originalMimeType := Some ''image/png'', appState := Loading\<rparr>)
     = (initial_state\<lparr>originalImage := Some ''data:image/png;base64,AAAA'',
                       originalMimeType := Some ''image/png'', appState := Loading\<rparr>,
        Some (EnhanceCall (Some ''AAAA'') ''image/png'' base_sentence))
   \<and> run [SelectFile ''image/png'', ReadLoaded 0 ''data:image/png;base64,AAAA'',
           ClickEnhance,
           StartOver,
           SelectFile ''image/png'', ReadLoaded 0 ''data:image/png;base64,CCCC'',
           ClickEnhance] initial_config
     = Some \<lparr>st = initial_state\<lparr>originalImage := Some ''data:image/png;base64,CCCC'',
                                 originalMimeType := Some ''image/png'',
                                 appState := Loading\<rparr>,
             reading = [],
             pending = [EnhanceCall (Some ''AAAA'') ''image/png'' base_sentence,
                        EnhanceCall (Some ''CCCC'') ''image/png'' base_sentence]\<rparr>
   \<and> run [SelectFile ''image/png'', ReadLoaded 0 ''data:image/png;base64,AAAA'',
           ClickEnhance,
           StartOver] initial_config
     = Some \<lparr>st = initial_state, reading = [],
             pending = [EnhanceCall (Some ''AAAA'') ''image/png'' base_sentence]\<rparr>
   \<and> run [SelectFile ''image/png'', ReadLoaded 0 ''data:image/png;base64,AAAA'',
           ClickEnhance,
           StartOver,
           Settle 0 (Inr \<lparr>candidates = Some [\<lparr>content = Some \<lparr>parts = Some
                 [\<lparr>part_text = None,
                   inlineData = Some \<lparr>data = Some ''BBBB'', mimeType = Some ''image/jpeg''\<rparr>\<rparr>]\<rparr>\<rparr>]\<rparr>)] initial_config
     = Some \<lparr>st = initial_state\<lparr>enhancedImage := Some ''data:image/jpeg;base64,BBBB'',
                                 appState := Success\<rparr>,
             reading = [], pending = []\<rparr>"
  by (simp add: handler_defs array_index_def build_prompt_def base_sentence_def)

text \<open>
  Claim C3, amended. The handler has no guard of its own: it issues a call whenever image
  and MIME type are non-empty, whatever the state. At most one call is pending as long as
  the state is not set back (by \<open>Start Over\<close> or the end of a file read) while a call is
  pending; without that restriction the rendered controls reach two pending calls. There
  is no freshness check: when a call settles right after a reset, a success still sets
  the enhanced image and the state success, and a failure still sets the error message
  and the state error.
\<close>

theorem C3_single_flight_only_when_calm:
  "(truthy (originalImage s) \<and> truthy (originalMimeType s) \<longrightarrow>
      (\<exists>call. handleEnhanceClick s =
         (s\<lparr>appState := Loading, error := None, enhancedImage := None\<rparr>, Some call)))
   \<and> (run_calm es initial_config = Some c \<longrightarrow> length (pending c) \<le> 1)
   \<and> (\<exists>es' c'. run es' initial_config = Some c' \<and> length (pending c') = 2)
   \<and> enhancedImage (enhance_settled (Inr url) (handleReset s)) = Some url
   \<and> appState (enhance_settled (Inr url) (handleReset s)) = Success
   \<and> error (enhance_settled (Inl (JsError message)) (handleReset s)) = Some message
   \<and> appState (enhance_settled (Inl (JsError message)) (handleReset s)) = Error"
proof -
  have handler: "truthy (originalImage s) \<and> truthy (originalMimeType s) \<longrightarrow>
      (\<exists>call. handleEnhanceClick s =
         (s\<lparr>appState := Loading, error := None, enhancedImage := None\<rparr>, Some call))"
    by (simp add: handleEnhanceClick_cases)
  have calm: "run_calm es initial_config = Some c \<longrightarrow> length (pending c) \<le> 1"
    using config_invariant_initial run_calm_invariant config_invariant_single_flight
    by blast
  have "run [SelectFile ''image/png'', ReadLoaded 0 ''data:image/png;base64,AAAA'',
             ClickEnhance,
             StartOver,
             SelectFile ''image/png'', ReadLoaded 0 ''data:image/png;base64,CCCC'',
             ClickEnhance] initial_config
          = Some \<lparr>st = initial_state\<lparr>originalImage := Some ''data:image/png;base64,CCCC'',
                                      originalMimeType := Some ''image/png'',
                                      appState := Loading\<rparr>,
                  reading = [],
                  pending = [EnhanceCall (Some ''AAAA'') ''image/png'' base_sentence,
                             EnhanceCall (Some ''CCCC'') ''image/png'' base_sentence]\<rparr>"
    by (simp add: handler_defs array_index_def build_prompt_def base_sentence_def)
  then have two: "\<exists>es' c'. run es' initial_config = Some c' \<and> length (pending c') = 2"
    by (intro exI conjI) (assumption, simp)
  have late: "enhancedImage (enhance_settled (Inr url) (handleReset s)) = Some url
     \<and> appState (enhance_settled (Inr url) (handleReset s)) = Success
     \<and> error (enhance_settled (Inl (JsError message)) (handleReset s)) = Some message
     \<and> appState (enhance_settled (Inl (JsError message)) (handleReset s)) = Error"
    by (simp add: enhance_settled_def handleReset_def handleResetSettings_def)
  from handler calm two late show ?thesis by blast
qed

theorem C3_witness:
  "snd (handleEnhanceClick
        (initial_state\<lparr>originalImage := Some ''data:image/png;base64,AAAA'',
                        originalMimeType := Some ''image/png'', appState := Loading\<rparr>)) \<noteq> None
   \<and> run_calm [SelectFile ''image/png'', ReadLoaded 0 ''data:image/png;base64,AAAA'',
               ClickEnhance, SetContrast 80] initial_config
       = Some \<lparr>st = initial_state\<lparr>originalImage := Some ''data:image/png;base64,AAAA'',
                                   originalMimeType := Some ''image/png'',
                                   appState := Loading, contrast := 80\<rparr>,
               reading = [],
               pending = [EnhanceCall (Some ''AAAA'') ''image/png'' base_sentence]\<rparr>
   \<and> length [EnhanceCall (Some ''AAAA'') ''image/png'' base_sentence] \<le> 1
   \<and> enhancedImage (enhance_settled (Inr ''data:image/jpeg;base64,BBBB'')
        (handleReset (initial_state\<lparr>originalImage := Some ''data:image/png;base64,AAAA'',
                        originalMimeType := Some ''image/png'', appState := Loading\<rparr>)))
     = Some ''data:image/jpeg;base64,BBBB''
   \<and> appState (enhance_settled (Inr ''data:image/jpeg;base64,BBBB'')
        (handleReset (initial_state\<lparr>originalImage := Some ''data:image/png;base64,AAAA'',
                        originalMimeType := Some ''image/png'', appState := Loading\<rparr>)))
     = Success"
proof -
  have r: "run_calm [SelectFile ''image/png'', ReadLoaded 0 ''data:image/png;base64,AAAA'',
               ClickEnhance, SetContrast 80] initial_config
       = Some \<lparr>st = initial_state\<lparr>originalImage := Some ''data:image/png;base64,AAAA'',
                                   originalMimeType := Some ''image/png'',
                                   appState := Loading, contrast := 80\<rparr>,
               reading = [],
               pending = [EnhanceCall (Some ''AAAA'') ''image/png'' base_sentence]\<rparr>"
    by (simp add: handler_defs array_index_def build_prompt_def base_sentence_def)
  have t: "truthy (originalImage
             (initial_state\<lparr>originalImage := Some ''data:image/png;base64,AAAA'',
                            originalMimeType := Some ''image/png'', appState := Loading\<rparr>))
           \<and> truthy (originalMimeType
             (initial_state\<lparr>originalImage := Some ''data:image/png;base64,AAAA'',
                            originalMimeType := Some ''image/png'', appState := Loading\<rparr>))"
    by (simp add: truthy_def)
  show ?thesis
    using r t
      C3_single_flight_only_when_calm
        [of "initial_state\<lparr>originalImage := Some ''data:image/png;base64,AAAA'',
                           originalMimeType := Some ''image/png'', appState := Loading\<rparr>"
            "[SelectFile ''image/png'', ReadLoaded 0 ''data:image/png;base64,AAAA'',
              ClickEnhance, SetContrast 80]"
            "\<lparr>st = initial_state\<lparr>originalImage := Some ''data:image/png;base64,AAAA'',
                                   originalMimeType := Some ''image/png'',
                                   appState := Loading, contrast := 80\<rparr>,
               reading = [],
               pending = [EnhanceCall (Some ''AAAA'') ''image/png'' base_sentence]\<rparr>"
            "''data:image/jpeg;base64,BBBB''" "''x''"]
    by auto
qed

section \<open>The state invariant\<close>

text \<open>
  Claim C2, as stated, fails, in each of its three parts, in states reached through the
  rendered controls. When a call settles after \<open>Start Over\<close>, or after a second file read
  has failed in the meantime, the source image is null but there is an enhanced image and
  the state is success. When a second read ends during a call, a second call can be
  started; if then the first call succeeds and the second fails, there is an enhanced
  image in state error, and if they settle in the other order, there is an error message
  in state success.
\<close>

theorem C2_counterexample:
  "run [SelectFile ''image/png'', ReadLoaded 0 ''data:image/png;base64,AAAA'',
        ClickEnhance,
        StartOver,
        Settle 0 (Inr \<lparr>candidates = Some [\<lparr>content = Some \<lparr>parts = Some
                 [\<lparr>part_text = None,
                   inlineData = Some \<lparr>data = Some ''BBBB'', mimeType = Some ''image/jpeg''\<rparr>\<rparr>]\<rparr>\<rparr>]\<rparr>)] initial_config
     = Some \<lparr>st = initial_state\<lparr>enhancedImage := Some ''data:image/jpeg;base64,BBBB'',
                                 appState := Success\<rparr>,
             reading = [], pending = []\<rparr>
   \<and> run [SelectFile ''image/png'', SelectFile ''image/gif'',
           ReadLoaded 0 ''data:image/png;base64,AAAA'',
           ClickEnhance,
           ReadFailed 0,
           Settle 0 (Inr \<lparr>candidates = Some [\<lparr>content = Some \<lparr>parts = Some
                 [\<lparr>part_text = None,
                   inlineData = Some \<lparr>data = Some ''BBBB'', mimeType = Some ''image/jpeg''\<rparr>\<rparr>]\<rparr>\<rparr>]\<rparr>)] initial_config
     = Some \<lparr>st = initial_state\<lparr>originalMimeType := Some ''image/gif'',
                                 enhancedImage := Some ''data:image/jpeg;base64,BBBB'',
                                 appState := Success\<rparr>,
             reading = [], pending = []\<rparr>
   \<and> run [SelectFile ''image/png'', SelectFile ''image/gif'',
           ReadLoaded 0 ''data:image/png;base64,AAAA'',
           ClickEnhance,
           ReadLoaded 0 ''data:image/gif;base64,CCCC'',
           ClickEnhance,
           Settle 0 (Inr \<lparr>candidates = Some [\<lparr>content = Some \<lparr>parts = Some
                 [\<lparr>part_text = None,
                   inlineData = Some \<lparr>data = Some ''BBBB'', mimeType = Some ''image/jpeg''\<rparr>\<rparr>]\<rparr>\<rparr>]\<rparr>),
           Settle 0 (Inl (JsError ''fetch failed''))] initial_config
     = Some \<lparr>st = initial_state
                  \<lparr>originalImage := Some ''data:image/gif;base64,CCCC'',
                    originalMimeType := Some ''image/gif'',
                    enhancedImage := Some ''data:image/jpeg;base64,BBBB'',
                    error := Some ''Failed to enhance the image. Please check the console for more details.'',
                    appState := Error\<rparr>,
             reading = [], pending = []\<rparr>
   \<and> run [SelectFile ''image/png'', SelectFile ''image/gif'',
           ReadLoaded 0 ''data:image/png;base64,AAAA'',
           ClickEnhance,
           ReadLoaded 0 ''data:image/gif;base64,CCCC'',
           ClickEnhance,
           Settle 1 (Inl (JsError ''fetch failed'')),
           Settle 0 (Inr \<lparr>candidates = Some [\<lparr>content = Some \<lparr>parts = Some
                 [\<lparr>part_text = None,
                   inlineData = Some \<lparr>data = Some ''BBBB'', mimeType = Some ''image/jpeg''\<rparr>\<rparr>]\<rparr>\<rparr>]\<rparr>)] initial_config
     = Some \<lparr>st = initial_state
                  \<lparr>originalImage := Some ''data:image/gif;base64,CCCC'',
                    originalMimeType := Some ''image/gif'',
                    enhancedImage := Some ''data:image/jpeg;base64,BBBB'',
                    error := Some ''Failed to enhance the image. Please check the console for more details.'',
                    appState := Success\<rparr>,
             reading = [], pending = []\<rparr>"
  by (simp add: handler_defs str_includes_def sublist_Cons_right)

text \<open>
  Claim C2, amended. In every state reached through the rendered controls and the ends of
  file reads, as long as the state is not set back (by \<open>Start Over\<close> or the end of a file
  read) while a call is pending: there is an enhanced image only in state success; there
  is an error message only in state error; and the source image is null only when the
  settings are at their defaults and the state is idle.
\<close>

theorem C2_invariant_of_calm_runs:
  "run_calm es initial_config = Some c \<Longrightarrow> state_invariant (st c)"
  using config_invariant_initial run_calm_invariant config_invariant_state by blast

theorem C2_witness:
  "run_calm [SelectFile ''image/png'', SelectFile ''image/gif'',
             ReadFailed 1,
             ReadLoaded 0 ''data:image/png;base64,AAAA'',
             ClickEnhance,
             SetBrightness 120,
             Settle 0 (Inr \<lparr>candidates = Some [\<lparr>content = Some \<lparr>parts = Some
                 [\<lparr>part_text = None,
                   inlineData = Some \<lparr>data = Some ''BBBB'', mimeType = Some ''image/jpeg''\<rparr>\<rparr>]\<rparr>\<rparr>]\<rparr>)] initial_config
     = Some \<lparr>st = initial_state\<lparr>originalImage := Some ''data:image/png;base64,AAAA'',
                                 originalMimeType := Some ''image/png'',
                                 enhancedImage := Some ''data:image/jpeg;base64,BBBB'',
                                 appState := Success, brightness := 120\<rparr>,
             reading = [], pending = []\<rparr>
   \<and> state_invariant
        (initial_state\<lparr>originalImage := Some ''data:image/png;base64,AAAA'',
                       originalMimeType := Some ''image/png'',
                       enhancedImage := Some ''data:image/jpeg;base64,BBBB'',
                       appState := Success, brightness := 120\<rparr>)"
proof -
  have r: "run_calm [SelectFile ''image/png'', SelectFile ''image/gif'',
             ReadFailed 1,
             ReadLoaded 0 ''data:image/png;base64,AAAA'',
             ClickEnhance,
             SetBrightness 120,
             Settle 0 (Inr \<lparr>candidates = Some [\<lparr>content = Some \<lparr>parts = Some
                 [\<lparr>part_text = None,
                   inlineData = Some \<lparr>data = Some ''BBBB'', mimeType = Some ''image/jpeg''\<rparr>\<rparr>]\<rparr>\<rparr>]\<rparr>)] initial_config
     = Some \<lparr>st = initial_state\<lparr>originalImage := Some ''data:image/png;base64,AAAA'',
                                 originalMimeType := Some ''image/png'',
                                 enhancedImage := Some ''data:image/jpeg;base64,BBBB'',
                                 appState := Success, brightness := 120\<rparr>,
             reading = [], pending = []\<rparr>"
    by (simp add: handler_defs)
  from C2_invariant_of_calm_runs [OF r] r show ?thesis by simp
qed

end
